theory Spec2Isabelle
  imports Main "HOL-Library.AList"
begin

section \<open>Python strings\<close>

text \<open>
  The module \<^verbatim>\<open>src/ape/plugins/_utils.py\<close> works on Python \<^verbatim>\<open>str\<close> values with
  \<^verbatim>\<open>startswith\<close>, \<^verbatim>\<open>in\<close>, \<^verbatim>\<open>replace\<close>, \<^verbatim>\<open>split\<close>, \<^verbatim>\<open>strip\<close>, \<^verbatim>\<open>join\<close> and \<^verbatim>\<open>index\<close>.
  A string is a \<open>char list\<close>; a \<open>char\<close> stands for a code point below 256.
\<close>

datatype py_error = ValueError | IndexError | PluginVersionError | InvalidSpecifier | InvalidVersion

definition py_startswith :: "string \<Rightarrow> string \<Rightarrow> bool" where
  "py_startswith s pre = (take (length pre) s = pre)"

text \<open>\<^verbatim>\<open>sub in s\<close>: \<open>sub\<close> occurs in \<open>s\<close> as a contiguous substring.\<close>

fun py_in :: "string \<Rightarrow> string \<Rightarrow> bool" where
  "py_in sub [] = (sub = [])"
| "py_in sub (c # cs) = (py_startswith (c # cs) sub \<or> py_in sub cs)"

text \<open>
  \<^verbatim>\<open>s.replace(old, new)\<close>: the occurrences of \<open>old\<close> are replaced from the left, without
  overlap. With an empty \<open>old\<close> Python puts \<open>new\<close> before every character and at the end.
\<close>

function py_replace :: "string \<Rightarrow> string \<Rightarrow> string \<Rightarrow> string" where
  "py_replace s old new =
     (if old = [] then new @ concat (map (\<lambda>c. c # new) s)
      else if s = [] then []
      else if py_startswith s old then new @ py_replace (drop (length old) s) old new
      else hd s # py_replace (tl s) old new)"
  by pat_completeness auto
termination
  by (relation "measure (\<lambda>(s, old, new). length s)") auto

declare py_replace.simps [simp del]

text \<open>
  \<^verbatim>\<open>s.split(sep)\<close> for a non-empty separator: the pieces between the occurrences of
  \<open>sep\<close>, found from the left without overlap; always at least one piece. \<open>acc\<close> holds
  the current piece, reversed. Python raises \<^verbatim>\<open>ValueError\<close> for an empty separator; the
  module only ever passes the literals \<^verbatim>\<open>"=="\<close>, \<^verbatim>\<open>"@"\<close>, \<^verbatim>\<open>".git"\<close> and \<^verbatim>\<open>"/"\<close>.
\<close>

function split_from :: "string \<Rightarrow> string \<Rightarrow> string \<Rightarrow> string list" where
  "split_from acc s sep =
     (if s = [] then [rev acc]
      else if sep \<noteq> [] \<and> py_startswith s sep
        then rev acc # split_from [] (drop (length sep) s) sep
      else split_from (hd s # acc) (tl s) sep)"
  by pat_completeness auto
termination
  by (relation "measure (\<lambda>(acc, s, sep). length s)") auto

declare split_from.simps [simp del]

definition py_split :: "string \<Rightarrow> string \<Rightarrow> string list" where
  "py_split s sep = split_from [] s sep"

text \<open>\<^verbatim>\<open>sep.join(parts)\<close>.\<close>

fun py_join :: "string \<Rightarrow> string list \<Rightarrow> string" where
  "py_join sep [] = []"
| "py_join sep [p] = p"
| "py_join sep (p # q # ps) = p @ sep @ py_join sep (q # ps)"

text \<open>
  \<^verbatim>\<open>str.isspace\<close> on the code points below 256: TAB, LF, VT, FF, CR, the separators
  0x1c to 0x1f, the blank, NEL (0x85) and the no-break space (0xa0).
\<close>

definition isspace :: "char \<Rightarrow> bool" where
  "isspace c = ((of_char c :: nat) \<in> set [9, 10, 11, 12, 13, 28, 29, 30, 31, 32, 133, 160])"

text \<open>\<^verbatim>\<open>s.strip()\<close> removes the whitespace at both ends.\<close>

definition py_strip :: "string \<Rightarrow> string" where
  "py_strip s = rev (dropWhile isspace (rev (dropWhile isspace s)))"

text \<open>
  \<^verbatim>\<open>s.index(sub)\<close>: the position of the first occurrence; Python raises \<^verbatim>\<open>ValueError\<close>
  when there is none, which is \<open>None\<close> here.
\<close>

fun py_index :: "string \<Rightarrow> string \<Rightarrow> nat option" where
  "py_index [] sub = (if sub = [] then Some 0 else None)"
| "py_index (c # cs) sub =
     (if py_startswith (c # cs) sub then Some 0 else map_option Suc (py_index cs sub))"

text \<open>\<^verbatim>\<open>min(xs)\<close> of a sequence; Python raises \<^verbatim>\<open>ValueError\<close> on an empty one.\<close>

fun py_min :: "nat list \<Rightarrow> py_error + nat" where
  "py_min [] = Inl ValueError"
| "py_min (x # xs) = Inr (fold min xs x)"

section \<open>Splitting a name from its version constraint\<close>

text \<open>
  \<^verbatim>\<open>_split_name_and_version(value)\<close>. With an \<^verbatim>\<open>@\<close> in the value, the non-empty pieces
  between the \<^verbatim>\<open>@\<close> are taken: the first is the name (\<^verbatim>\<open>parts[0]\<close> raises \<^verbatim>\<open>IndexError\<close>
  when there is no piece) and the others, joined by \<^verbatim>\<open>@\<close>, are the version. Otherwise
  the value is cut at the first of \<^verbatim>\<open>=\<close>, \<^verbatim>\<open><\<close>, \<^verbatim>\<open>>\<close>, and without any of them the
  version is \<^verbatim>\<open>None\<close>.
\<close>

definition split_name_and_version :: "string \<Rightarrow> py_error + (string \<times> string option)" where
  "split_name_and_version val =
     (if py_in ''@'' val then
        (case filter (\<lambda>x. x \<noteq> []) (py_split val ''@'') of
           [] \<Rightarrow> Inl IndexError
         | p # ps \<Rightarrow> Inr (p, Some (py_join ''@'' ps)))
      else
        (let chars = filter (\<lambda>c. py_in c val) [''='', ''<'', ''>'']
         in if chars = [] then Inr (val, None)
            else (case those (map (py_index val) chars) of
                    None \<Rightarrow> Inl ValueError
                  | Some is \<Rightarrow>
                      (case py_min is of
                         Inl e \<Rightarrow> Inl e
                       | Inr index \<Rightarrow> Inr (take index val, Some (drop index val))))))"

section \<open>Constants of the module\<close>

definition CORE_PLUGINS :: "string list" where
  "CORE_PLUGINS =
     [''ape_accounts'', ''ape_cache'', ''ape_compile'', ''ape_console'', ''ape_ethereum'',
      ''ape_node'', ''ape_init'', ''ape_networks'', ''ape_plugins'', ''ape_pm'', ''ape_run'',
      ''ape_test'']"

definition TRUSTED_PLUGINS :: "string list" where
  "TRUSTED_PLUGINS =
     [''addressbook'', ''alchemy'', ''arbitrum'', ''avalanche'', ''aws'', ''base'', ''blast'',
      ''blockscout'', ''bsc'', ''cairo'', ''chainstack'', ''ens'', ''etherscan'', ''fantom'',
      ''farcaster'', ''flashbots'', ''foundry'', ''frame'', ''ganache'', ''hardhat'', ''infura'',
      ''ledger'', ''notebook'', ''optimism'', ''polygon'', ''polygon-zkevm'', ''safe'',
      ''solidity'', ''template'', ''tenderly'', ''titanoboa'', ''tokens'', ''trezor'', ''vyper'']"

text \<open>\<^verbatim>\<open>clean_plugin_name\<close>: \<^verbatim>\<open>name.replace("_", "-").replace("ape-", "")\<close>.\<close>

definition clean_plugin_name :: "string \<Rightarrow> string" where
  "clean_plugin_name nm = py_replace (py_replace nm ''_'' ''-'') ''ape-'' []"

section \<open>What the module takes from outside\<close>

text \<open>
  The module reads the installed distributions (\<^verbatim>\<open>_get_distributions\<close>), the registry of
  available plugins (\<^verbatim>\<open>github_client.available_plugins\<close>), Ape's own version, the
  location of \<^verbatim>\<open>uv\<close> and of the interpreter, the installed version of a package
  (\<^verbatim>\<open>get_package_version\<close>), the answer to a confirmation prompt (\<^verbatim>\<open>click.confirm\<close>), and
  it calls \<^verbatim>\<open>urlparse\<close> and the \<^verbatim>\<open>packaging\<close> library. None of these is part of the
  module, so they are the fields of one record that the functions below take as an
  argument. A library parser that raises (\<^verbatim>\<open>InvalidSpecifier\<close>, \<^verbatim>\<open>InvalidVersion\<close>) returns
  \<open>None\<close>.
\<close>

text \<open>
  A \<^verbatim>\<open>packaging.version.Version\<close>, as far as the module reads it: the first two release
  components, which the library parses from digits, hence natural numbers.
\<close>

record Version =
  major :: nat
  minor :: nat

text \<open>A \<^verbatim>\<open>packaging.specifiers.Specifier\<close>: its operator and its version text.\<close>

datatype Specifier = Specifier (operator: string) (version_text: string)

text \<open>
  A distribution as \<^verbatim>\<open>_filter_plugins_from_dists\<close> reads it: \<^verbatim>\<open>getattr(dist, "name", "")\<close>
  and \<^verbatim>\<open>getattr(dist, "metadata", {})\<close>.
\<close>

record dist =
  dist_name :: string
  dist_metadata :: "(string \<times> string) list"

record env =
  distributions :: "dist list"
  available_plugins :: "string list"
  ape_version :: Version
  which_uv :: "string option"
  sys_executable :: string
  get_package_version :: "string \<Rightarrow> string option"
  confirm :: "string \<Rightarrow> bool"
  urlparse_path :: "string \<Rightarrow> string"
  parse_SpecifierSet :: "string \<Rightarrow> Specifier list option"
  parse_Version :: "string \<Rightarrow> Version option"

text \<open>\<^verbatim>\<open>PIP_COMMAND = ["uv", "pip"] if which("uv") else [sys.executable, "-m", "pip"]\<close>.\<close>

definition PIP_COMMAND :: "env \<Rightarrow> string list" where
  "PIP_COMMAND e =
     (case which_uv e of
        Some (c # cs) \<Rightarrow> [''uv'', ''pip'']
      | _ \<Rightarrow> [sys_executable e, ''-m'', ''pip''])"

fun filter_plugins_from_dists :: "dist list \<Rightarrow> string list" where
  "filter_plugins_from_dists [] = []"
| "filter_plugins_from_dists (d # ds) =
     (if dist_name d \<noteq> [] then
        (if py_startswith (dist_name d) ''ape-'' then [dist_name d] else [])
      else if dist_metadata d \<noteq> [] then
        (let nm = (case map_of (dist_metadata d) ''Name'' of None \<Rightarrow> [] | Some n \<Rightarrow> n)
         in if py_startswith nm ''ape-'' then [nm] else [])
      else [])
     @ filter_plugins_from_dists ds"

definition get_plugin_dists :: "env \<Rightarrow> string list" where
  "get_plugin_dists e = filter_plugins_from_dists (distributions e)"

section \<open>ApeVersion\<close>

text \<open>\<^verbatim>\<open>str\<close> of a non-negative integer: its decimal digits.\<close>

function py_str :: "nat \<Rightarrow> string" where
  "py_str n =
     (if n < 10 then [char_of (48 + n)]
      else py_str (n div 10) @ [char_of (48 + n mod 10)])"
  by pat_completeness auto
termination
  by (relation "measure (\<lambda>n. n)") auto

declare py_str.simps [simp del]

definition is_pre_one :: "Version \<Rightarrow> bool" where
  "is_pre_one av = (major av = 0)"

definition version_range :: "Version \<Rightarrow> string" where
  "version_range av =
     (if major av = 0
      then ''>=0.'' @ py_str (minor av) @ '',<0.'' @ py_str (minor av + 1)
      else ''>='' @ py_str (major av) @ '',<'' @ py_str (major av + 1))"

text \<open>
  The loop of \<^verbatim>\<open>would_get_downgraded\<close> over the specifiers, in the order the set
  yields them. \<^verbatim>\<open>Version(spec.version)\<close> is evaluated for each specifier before the
  test, so a version text that the library rejects raises \<^verbatim>\<open>InvalidVersion\<close> there.
\<close>

fun downgrade_loop :: "env \<Rightarrow> Specifier list \<Rightarrow> py_error + bool" where
  "downgrade_loop e [] = Inr False"
| "downgrade_loop e (spec # specs) =
     (case parse_Version e (version_text spec) of
        None \<Rightarrow> Inl InvalidVersion
      | Some spec_version \<Rightarrow>
          if operator spec \<in> set [''=='', ''<'', ''<='']
             \<and> ((is_pre_one (ape_version e) \<and> major spec_version < major (ape_version e))
                \<or> (is_pre_one (ape_version e) \<and> minor spec_version < minor (ape_version e)))
          then Inr True
          else downgrade_loop e specs)"

definition would_get_downgraded :: "env \<Rightarrow> string \<Rightarrow> py_error + bool" where
  "would_get_downgraded e plugin_version_str =
     (case parse_SpecifierSet e plugin_version_str of
        None \<Rightarrow> Inl InvalidSpecifier
      | Some spec_set \<Rightarrow> downgrade_loop e spec_set)"

section \<open>PluginMetadata\<close>

text \<open>
  The three fields of the model class. \<^verbatim>\<open>package_name\<close> and \<^verbatim>\<open>module_name\<close> are
  \<^verbatim>\<open>cached_property\<close>s in the source: each caches a function of \<^verbatim>\<open>name\<close> alone, and the
  module never assigns to \<^verbatim>\<open>name\<close> after construction, so they are functions of the
  record here; the section on the store below has the cache itself. Calls of the logger
  have no effect on any returned value and are left out.
\<close>

record PluginMetadata =
  name :: string
  version :: "string option"
  pip_command :: "string list"

text \<open>Python's truth test on an \<^verbatim>\<open>Optional[str]\<close>: \<^verbatim>\<open>None\<close> and \<^verbatim>\<open>""\<close> are false.\<close>

fun truthy :: "string option \<Rightarrow> bool" where
  "truthy None = False"
| "truthy (Some s) = (s \<noteq> [])"

text \<open>
  The name that \<^verbatim>\<open>validate_name\<close> derives from a \<^verbatim>\<open>git+\<close> remote:
  \<^verbatim>\<open>urlparse(version.replace("git+", "")).path.split(".git")[0].split("/")[-1].replace("ape-", "")\<close>.
  \<^verbatim>\<open>split\<close> returns at least one piece (\<open>split_from_not_Nil\<close> below), so \<^verbatim>\<open>[0]\<close> and
  \<^verbatim>\<open>[-1]\<close> are \<open>hd\<close> and \<open>last\<close> of a non-empty list.
\<close>

definition git_repo_name :: "env \<Rightarrow> string \<Rightarrow> string" where
  "git_repo_name e ver =
     py_replace
       (last (py_split (hd (py_split (urlparse_path e (py_replace ver ''git+'' [])) ''.git'')) ''/''))
       ''ape-'' []"

text \<open>
  The loop \<^verbatim>\<open>for constraint in ("==", "<=", ">=", "@git+")\<close> of \<^verbatim>\<open>validate_name\<close>: the
  first constraint found in the name splits it and ends the loop.
\<close>

fun constraint_loop ::
  "string list \<Rightarrow> string \<Rightarrow> string option \<Rightarrow> py_error + (string \<times> string option)" where
  "constraint_loop [] nm ver = Inr (nm, ver)"
| "constraint_loop (constraint # rest) nm ver =
     (if \<not> py_in constraint nm then constraint_loop rest nm ver
      else split_name_and_version nm)"

text \<open>
  \<^verbatim>\<open>validate_name\<close>, the validator that runs before a \<^verbatim>\<open>PluginMetadata\<close> is built, on
  the values \<^verbatim>\<open>name\<close>, \<^verbatim>\<open>version\<close> and \<^verbatim>\<open>pip_command\<close> (each possibly absent).
\<close>

definition validate_name ::
  "env \<Rightarrow> string option \<Rightarrow> string option \<Rightarrow> string list option \<Rightarrow> py_error + PluginMetadata" where
  "validate_name e values_name values_version values_pip_command =
     (case values_name of
        None \<Rightarrow> Inl ValueError
      | Some nm0 \<Rightarrow>
          (let (nm, ver) =
                 (if py_startswith nm0 ''git+'' then (git_repo_name e nm0, Some nm0)
                  else (nm0, values_version));
               pip_cmd = (case values_pip_command of None \<Rightarrow> PIP_COMMAND e | Some c \<Rightarrow> c);
               build = (\<lambda>(n, v). \<lparr>name = clean_plugin_name n, version = v, pip_command = pip_cmd\<rparr>)
           in case ver of
                Some v \<Rightarrow>
                  if v \<noteq> [] \<and> py_startswith v ''git+'' then
                    (if \<not> py_in (''ape-'' @ nm) v then Inl ValueError else Inr (build (nm, ver)))
                  else if v = [] then
                    map_sum id build (constraint_loop [''=='', ''<='', ''>='', ''@git+''] nm ver)
                  else Inr (build (nm, ver))
              | None \<Rightarrow>
                  map_sum id build (constraint_loop [''=='', ''<='', ''>='', ''@git+''] nm ver)))"

definition package_name :: "'a PluginMetadata_scheme \<Rightarrow> string" where
  "package_name p = ''ape-'' @ name p"

text \<open>
  \<^verbatim>\<open>module_name\<close> of the source; the name carries a prime here because the plain word is
  reserved in theory files.
\<close>

definition module_name' :: "'a PluginMetadata_scheme \<Rightarrow> string" where
  "module_name' p = ''ape_'' @ py_replace (name p) ''-'' ''_''"

definition current_version :: "env \<Rightarrow> 'a PluginMetadata_scheme \<Rightarrow> string option" where
  "current_version e p = get_package_version e (package_name p)"

definition in_core :: "'a PluginMetadata_scheme \<Rightarrow> bool" where
  "in_core p = (py_strip (module_name' p) \<in> set CORE_PLUGINS)"

definition check_installed :: "env \<Rightarrow> 'a PluginMetadata_scheme \<Rightarrow> bool" where
  "check_installed e p = list_ex (\<lambda>n. n = package_name p) (get_plugin_dists e)"

definition is_installed :: "env \<Rightarrow> 'a PluginMetadata_scheme \<Rightarrow> bool" where
  "is_installed e p = check_installed e p"

definition is_available :: "env \<Rightarrow> 'a PluginMetadata_scheme \<Rightarrow> bool" where
  "is_available e p = (module_name' p \<in> set (available_plugins e))"

text \<open>
  \<^verbatim>\<open>check_trusted(use_web, trusted_list)\<close>; \<^verbatim>\<open>trusted_list or TRUSTED_PLUGINS\<close> takes the
  hardcoded list when the given one is \<^verbatim>\<open>None\<close> or empty.
\<close>

definition check_trusted ::
  "env \<Rightarrow> 'a PluginMetadata_scheme \<Rightarrow> bool \<Rightarrow> string list option \<Rightarrow> bool" where
  "check_trusted e p use_web trusted_list =
     (if use_web then is_available e p
      else name p \<in> set (case trusted_list of Some (t # ts) \<Rightarrow> t # ts | _ \<Rightarrow> TRUSTED_PLUGINS))"

definition is_trusted :: "env \<Rightarrow> 'a PluginMetadata_scheme \<Rightarrow> bool" where
  "is_trusted e p = check_trusted e p True None"

definition is_third_party :: "env \<Rightarrow> 'a PluginMetadata_scheme \<Rightarrow> bool" where
  "is_third_party e p = (is_installed e p \<and> \<not> is_trusted e p)"

definition can_install :: "env \<Rightarrow> 'a PluginMetadata_scheme \<Rightarrow> bool" where
  "can_install e p =
     (let requesting_different_version = (version p \<noteq> None \<and> version p \<noteq> current_version e p)
      in \<not> is_installed e p \<or> requesting_different_version)"

text \<open>
  \<^verbatim>\<open>install_str\<close>. An error of \<^verbatim>\<open>would_get_downgraded\<close> (raised by the library) passes
  through; \<^verbatim>\<open>PluginVersionError\<close> is raised by \<^verbatim>\<open>install_str\<close> itself.
\<close>

definition install_str :: "env \<Rightarrow> 'a PluginMetadata_scheme \<Rightarrow> py_error + string" where
  "install_str e p =
     (if truthy (version p) \<and> py_startswith (case version p of Some v \<Rightarrow> v | None \<Rightarrow> []) ''git+''
      then Inr (case version p of Some v \<Rightarrow> v | None \<Rightarrow> [])
      else
        (case version p of
           Some (c # cs) \<Rightarrow>
             (let ver = (if \<not> list_ex (\<lambda>x. py_in x (c # cs)) [''='', ''<'', ''>'']
                         then ''=='' @ (c # cs) else c # cs)
              in case would_get_downgraded e ver of
                   Inl err \<Rightarrow> Inl err
                 | Inr True \<Rightarrow> Inl PluginVersionError
                 | Inr False \<Rightarrow> Inr (package_name p @ ver))
         | _ \<Rightarrow>
             (let ver = version_range (ape_version e)
              in Inr (if ver \<noteq> [] then package_name p @ ver else package_name p))))"

text \<open>
  \<^verbatim>\<open>prepare_package_manager_args(verb, python_location, extra_args)\<close>. \<^verbatim>\<open>command[0]\<close>
  raises \<^verbatim>\<open>IndexError\<close> on an empty \<^verbatim>\<open>pip_command\<close>. The tests \<^verbatim>\<open>if extra_args\<close> and
  \<^verbatim>\<open>if python_location\<close> are Python truth tests: an empty value counts as absent.
\<close>

definition prepare_package_manager_args ::
  "'a PluginMetadata_scheme \<Rightarrow> string \<Rightarrow> string option \<Rightarrow> string list option
     \<Rightarrow> py_error + string list" where
  "prepare_package_manager_args p verb python_location extra_args =
     (let extra = (case extra_args of Some (x # xs) \<Rightarrow> x # xs | _ \<Rightarrow> []);
          command = pip_command p
      in case command of
           [] \<Rightarrow> Inl IndexError
         | c0 # _ \<Rightarrow>
             if c0 = ''uv'' then
               Inr (case python_location of
                      Some (l # ls) \<Rightarrow> (command @ [verb, ''--python'', l # ls]) @ extra
                    | _ \<Rightarrow> command @ [verb] @ extra)
             else
               Inr (case python_location of
                      Some (l # ls) \<Rightarrow> (command @ [''--python'', l # ls, verb]) @ extra
                    | _ \<Rightarrow> command @ [verb] @ extra))"

text \<open>
  The values of the dictionary that \<^verbatim>\<open>_prepare_install\<close> returns, and the
  \<^verbatim>\<open>ModifyPluginResultHandler\<close>, which only holds the plugin.
\<close>

datatype py_value =
    ArgList "string list"
  | OptStr "string option"
  | ModifyPluginResultHandler PluginMetadata

text \<open>
  \<^verbatim>\<open>_prepare_install(upgrade, skip_confirmation, python_location)\<close>: \<open>None\<close> is the
  \<^verbatim>\<open>return None\<close> of the source, a dictionary is an association list. The branch
  \<^verbatim>\<open>elif self.is_third_party\<close> only logs a warning and falls through to the code after
  the chain, so it does not show here. The confirmation prompt is asked only when the
  plugin can be installed, is not in the registry and confirmation is not skipped.
\<close>

definition prepare_install ::
  "env \<Rightarrow> PluginMetadata \<Rightarrow> bool \<Rightarrow> bool \<Rightarrow> string option
     \<Rightarrow> py_error + (string \<times> py_value) list option" where
  "prepare_install e p upgrade skip_confirmation python_location =
     (if in_core p then Inr None
      else if version p \<noteq> None \<and> upgrade then Inr None
      else
        (let result_handler = ModifyPluginResultHandler p
         in case prepare_package_manager_args p ''install'' python_location None of
              Inl err \<Rightarrow> Inl err
            | Inr pip_arguments \<Rightarrow>
                if upgrade then
                  Inr (Some
                    [(''args'', ArgList (pip_arguments @
                        [''--upgrade'', package_name p @ version_range (ape_version e), ''--quiet''])),
                     (''version_before'', OptStr (current_version e p)),
                     (''result_handler'', result_handler)])
                else if can_install e p \<and>
                        (is_available e p \<or> skip_confirmation
                         \<or> confirm e (''Install the '' @ [CHR 0x27] @ name p @ [CHR 0x27] @ '' plugin?''))
                then
                  (case install_str e p of
                     Inl err \<Rightarrow> Inl err
                   | Inr s \<Rightarrow>
                       Inr (Some
                         [(''args'', ArgList (pip_arguments @ [s, ''--quiet''])),
                          (''result_handler'', result_handler)]))
                else Inr None))"

text \<open>\<^verbatim>\<open>_get_uninstall_args(python_location)\<close>.\<close>

definition get_uninstall_args ::
  "'a PluginMetadata_scheme \<Rightarrow> string option \<Rightarrow> py_error + string list" where
  "get_uninstall_args p python_location =
     (case prepare_package_manager_args p ''uninstall'' python_location None of
        Inl err \<Rightarrow> Inl err
      | Inr arguments \<Rightarrow>
          (case pip_command p of
             [] \<Rightarrow> Inl IndexError
           | c0 # _ \<Rightarrow>
               Inr ((if c0 \<noteq> ''uv'' then arguments @ [''-y''] else arguments)
                    @ [package_name p, ''--quiet''])))"

section \<open>PluginMetadataList\<close>

datatype PluginType = CORE | INSTALLED | THIRD_PARTY | AVAILABLE

text \<open>
  A \<^verbatim>\<open>PluginGroup\<close>: its type and the dictionary \<^verbatim>\<open>plugins\<close>, an association list in
  insertion order. \<^verbatim>\<open>group.plugins[key] = plugin\<close> is \<open>set_plugin\<close>.
\<close>

record PluginGroup =
  plugin_type :: PluginType
  plugins :: "(string \<times> PluginMetadata) list"

record PluginMetadataList =
  core :: PluginGroup
  available :: PluginGroup
  installed :: PluginGroup
  third_party :: PluginGroup

definition set_plugin :: "PluginGroup \<Rightarrow> string \<Rightarrow> PluginMetadata \<Rightarrow> PluginGroup" where
  "set_plugin g key plugin = g\<lparr>plugins := AList.update key plugin (plugins g)\<rparr>"

text \<open>
  The loop of \<^verbatim>\<open>from_package_names\<close> over the packages; the state is the four groups.
  The key of an entry is the text before the first \<^verbatim>\<open>==\<close> as it stands
  (\<^verbatim>\<open>parts[0]\<close>, the \<open>hd\<close> of a list that is never empty), the plugin is built from
  that text stripped, and the version is \<^verbatim>\<open>parts[1]\<close> when there are exactly two
  parts. An error of the validator ends the call. The last branch only logs.
\<close>

fun from_package_names_loop ::
  "env \<Rightarrow> string list \<Rightarrow> bool \<Rightarrow> string list option \<Rightarrow> PluginMetadataList
     \<Rightarrow> py_error + PluginMetadataList" where
  "from_package_names_loop e [] include_available trusted_list st = Inr st"
| "from_package_names_loop e (package_id # packages) include_available trusted_list st =
     (let parts = py_split package_id ''=='';
          nm = hd parts;
          ver = (if length parts = 2 then Some (parts ! 1) else None)
      in case validate_name e (Some (py_strip nm)) ver None of
           Inl err \<Rightarrow> Inl err
         | Inr plugin \<Rightarrow>
             if in_core plugin then
               from_package_names_loop e packages include_available trusted_list
                 (st\<lparr>core := set_plugin (core st) nm plugin\<rparr>)
             else
               (let is_installed = is_installed e plugin;
                    is_trusted = check_trusted e plugin False trusted_list;
                    is_available = (include_available \<and> is_available e plugin)
                in if include_available \<and> is_available \<and> \<not> is_installed then
                     from_package_names_loop e packages include_available trusted_list
                       (st\<lparr>available := set_plugin (available st) nm plugin\<rparr>)
                   else if is_installed \<and> \<not> in_core plugin \<and> is_trusted then
                     from_package_names_loop e packages include_available trusted_list
                       (st\<lparr>installed := set_plugin (installed st) nm plugin\<rparr>)
                   else if is_installed then
                     from_package_names_loop e packages include_available trusted_list
                       (st\<lparr>third_party := set_plugin (third_party st) nm plugin\<rparr>)
                   else
                     from_package_names_loop e packages include_available trusted_list st))"

definition empty_groups :: PluginMetadataList where
  "empty_groups =
     \<lparr>core = \<lparr>plugin_type = CORE, plugins = []\<rparr>,
      available = \<lparr>plugin_type = AVAILABLE, plugins = []\<rparr>,
      installed = \<lparr>plugin_type = INSTALLED, plugins = []\<rparr>,
      third_party = \<lparr>plugin_type = THIRD_PARTY, plugins = []\<rparr>\<rparr>"

definition from_package_names ::
  "env \<Rightarrow> string list \<Rightarrow> bool \<Rightarrow> string list option \<Rightarrow> py_error + PluginMetadataList" where
  "from_package_names e packages include_available trusted_list =
     from_package_names_loop e packages include_available trusted_list empty_groups"

text \<open>The names under which a group holds plugins: the keys of its dictionary.\<close>

definition group_keys :: "PluginGroup \<Rightarrow> string set" where
  "group_keys g = fst ` set (plugins g)"

subsection \<open>The classification as the specification words it\<close>






subsection \<open>The branches of the loop as one function\<close>



section \<open>Example environments and plugins\<close>

text \<open>
  An environment with Ape 0.8: two Ape plugins and one other distribution installed, two
  plugins in the registry, no \<^verbatim>\<open>uv\<close>. The two library parsers are given on the strings
  the examples use, as \<^verbatim>\<open>packaging\<close> answers on them: \<^verbatim>\<open>SpecifierSet("==1.*")\<close> is a
  valid specifier set, and \<^verbatim>\<open>Version("1.*")\<close> raises \<^verbatim>\<open>InvalidVersion\<close>.
\<close>

definition example_SpecifierSet :: "string \<Rightarrow> Specifier list option" where
  "example_SpecifierSet s =
     (if s = ''==0.7.0'' then Some [Specifier ''=='' ''0.7.0'']
      else if s = ''==0.8.2'' then Some [Specifier ''=='' ''0.8.2'']
      else if s = ''>=0.7,<0.9'' then Some [Specifier ''>='' ''0.7'', Specifier ''<'' ''0.9'']
      else if s = ''==1.*'' then Some [Specifier ''=='' ''1.*'']
      else None)"

definition example_Version :: "string \<Rightarrow> Version option" where
  "example_Version s =
     (if s = ''0.7.0'' then Some \<lparr>major = 0, minor = 7\<rparr>
      else if s = ''0.7'' then Some \<lparr>major = 0, minor = 7\<rparr>
      else if s = ''0.8.2'' then Some \<lparr>major = 0, minor = 8\<rparr>
      else if s = ''0.9'' then Some \<lparr>major = 0, minor = 9\<rparr>
      else None)"

definition example_env :: env where
  "example_env =
     \<lparr>distributions =
        [\<lparr>dist_name = ''ape-solidity'', dist_metadata = []\<rparr>,
         \<lparr>dist_name = ''ape-mything'', dist_metadata = []\<rparr>,
         \<lparr>dist_name = ''requests'', dist_metadata = []\<rparr>],
      available_plugins = [''ape_solidity'', ''ape_vyper''],
      ape_version = \<lparr>major = 0, minor = 8\<rparr>,
      which_uv = None,
      sys_executable = ''python3'',
      get_package_version = (\<lambda>n. if n = ''ape-solidity'' then Some ''0.8.1'' else None),
      confirm = (\<lambda>prompt. False),
      urlparse_path = (\<lambda>url. url),
      parse_SpecifierSet = example_SpecifierSet,
      parse_Version = example_Version\<rparr>"

text \<open>The same environment with Ape 1.0.\<close>

definition example_env_one :: env where
  "example_env_one = example_env\<lparr>ape_version := \<lparr>major = 1, minor = 0\<rparr>\<rparr>"

text \<open>
  The same environment with one more distribution, whose name carries a version
  constraint.
\<close>

definition example_env_odd :: env where
  "example_env_odd =
     example_env\<lparr>distributions :=
        \<lparr>dist_name = ''ape-accounts<=1'', dist_metadata = []\<rparr> # distributions example_env\<rparr>"

definition vyper_uv :: PluginMetadata where
  "vyper_uv = \<lparr>name = ''vyper'', version = None, pip_command = [''uv'', ''pip'']\<rparr>"

definition vyper_pip :: PluginMetadata where
  "vyper_pip = \<lparr>name = ''vyper'', version = None, pip_command = [''python3'', ''-m'', ''pip'']\<rparr>"

definition accounts_pip :: PluginMetadata where
  "accounts_pip = \<lparr>name = ''accounts'', version = None, pip_command = [''python3'', ''-m'', ''pip'']\<rparr>"



text \<open>
  Two entries with the same text before \<^verbatim>\<open>==\<close>, and the groups they give in the
  environment with the distribution \<^verbatim>\<open>ape-accounts<=1\<close>.
\<close>

definition odd_packages :: "string list" where
  "odd_packages = [''accounts<=1'', ''accounts<=1==2'']"

definition odd_groups :: PluginMetadataList where
  "odd_groups =
     \<lparr>core = \<lparr>plugin_type = CORE, plugins =
        [(''accounts<=1'',
          \<lparr>name = ''accounts'', version = Some ''<=1'',
            pip_command = [''python3'', ''-m'', ''pip'']\<rparr>)]\<rparr>,
      available = \<lparr>plugin_type = AVAILABLE, plugins = []\<rparr>,
      installed = \<lparr>plugin_type = INSTALLED, plugins = []\<rparr>,
      third_party = \<lparr>plugin_type = THIRD_PARTY, plugins =
        [(''accounts<=1'',
          \<lparr>name = ''accounts<=1'', version = Some ''2'',
            pip_command = [''python3'', ''-m'', ''pip'']\<rparr>)]\<rparr>\<rparr>"


section \<open>The command builders on a store\<close>














section \<open>Environments with package names\<close>


section \<open>Facts about the string functions\<close>

text \<open>
  Which characters a string keeps or gains under \<open>py_replace\<close> and \<open>py_strip\<close>, and what
  \<open>py_in\<close> and \<open>py_startswith\<close> say about the characters of a string.
\<close>

lemma py_in_single: "py_in [c] s \<longleftrightarrow> c \<in> set s"
  by (induction s) (auto simp: py_startswith_def)









lemma split_from_not_Nil: "split_from acc s sep \<noteq> []"
  by (induction acc s sep rule: split_from.induct) (subst split_from.simps, simp)

lemma py_split_not_Nil: "py_split s sep \<noteq> []"
  unfolding py_split_def by (rule split_from_not_Nil)




section \<open>The name and the version of a constraint\<close>

text \<open>
  Without an \<^verbatim>\<open>@\<close>, \<open>split_name_and_version\<close> cuts the value at the smallest index of the
  characters \<^verbatim>\<open>=\<close>, \<^verbatim>\<open><\<close>, \<^verbatim>\<open>>\<close> that occur in it. That index is the length of the longest
  prefix without any of the three (\<open>first_of_chars\<close>).
\<close>

lemma py_index_single: "c \<in> set s \<Longrightarrow> py_index s [c] = Some (length (takeWhile (\<lambda>x. x \<noteq> c) s))"
  by (induction s) (auto simp: py_startswith_def)

lemma those_index_single:
  "set P \<subseteq> set s \<Longrightarrow>
   those (map (py_index s) (map (\<lambda>c. [c]) P)) = Some (map (\<lambda>c. length (takeWhile (\<lambda>x. x \<noteq> c) s)) P)"
  by (induction P) (auto simp: py_index_single)

lemma py_min_Min: "xs \<noteq> [] \<Longrightarrow> py_min xs = Inr (Min (set xs))"
  by (cases xs) (simp_all add: Min.set_eq_fold [symmetric] del: set_simps)

lemma takeWhile_length_mono:
  "(\<And>x. x \<in> set xs \<Longrightarrow> P x \<Longrightarrow> Q x) \<Longrightarrow> length (takeWhile P xs) \<le> length (takeWhile Q xs)"
  by (induction xs) auto

lemma takeWhile_length_less: "\<exists>x\<in>set xs. \<not> P x \<Longrightarrow> length (takeWhile P xs) < length xs"
  by (induction xs) auto

lemma takeWhile_length_le:
  assumes "n < length xs" "\<not> Q (xs ! n)"
  shows "length (takeWhile Q xs) \<le> n"
proof (rule ccontr)
  assume "\<not> length (takeWhile Q xs) \<le> n"
  then have lt: "n < length (takeWhile Q xs)" by simp
  then have "takeWhile Q xs ! n = xs ! n" by (rule takeWhile_nth)
  moreover from lt have "takeWhile Q xs ! n \<in> set (takeWhile Q xs)" by simp
  ultimately have "Q (xs ! n)" by (metis set_takeWhileD)
  with assms show False by simp
qed

lemma first_of_chars:
  assumes ne: "P \<noteq> []" and sub: "set P = set S \<inter> set s"
  shows "Min (set (map (\<lambda>c. length (takeWhile (\<lambda>x. x \<noteq> c) s)) P))
           = length (takeWhile (\<lambda>x. x \<notin> set S) s)"
proof -
  let ?n = "length (takeWhile (\<lambda>x. x \<notin> set S) s)"
  let ?idx = "\<lambda>c. length (takeWhile (\<lambda>x. x \<noteq> c) s)"
  from ne obtain c0 where "c0 \<in> set P" by (cases P) auto
  with sub have ex: "\<exists>x\<in>set s. \<not> x \<notin> set S" by auto
  have n_lt: "?n < length s" using ex by (rule takeWhile_length_less)
  have hit: "s ! ?n \<in> set S" using nth_length_takeWhile [OF n_lt] by simp
  have inP: "s ! ?n \<in> set P" using hit n_lt sub by simp
  have lower: "?n \<le> ?idx c" if "c \<in> set P" for c
    using that sub by (intro takeWhile_length_mono) auto
  have "?idx (s ! ?n) \<le> ?n" by (rule takeWhile_length_le [OF n_lt]) simp
  with lower [OF inP] have eq: "?idx (s ! ?n) = ?n" by simp
  show ?thesis
  proof (rule Min_eqI)
    show "finite (set (map ?idx P))" by simp
    show "?n \<le> y" if "y \<in> set (map ?idx P)" for y using that lower by auto
    from inP have "?idx (s ! ?n) \<in> ?idx ` set P" by (rule imageI)
    then show "?n \<in> set (map ?idx P)" by (simp only: set_map eq)
  qed
qed

lemma chars_filter:
  "filter (\<lambda>c. py_in c val) (map (\<lambda>c. [c]) S) = map (\<lambda>c. [c]) (filter (\<lambda>c. c \<in> set val) S)"
  by (induction S) (auto simp: py_in_single)

lemma cut_at_first:
  assumes "P = filter (\<lambda>c. c \<in> set val) S" and "P \<noteq> []"
  shows "(case those (map (py_index val) (map (\<lambda>c. [c]) P)) of
            None \<Rightarrow> Inl ValueError
          | Some is \<Rightarrow>
              (case py_min is of
                 Inl e \<Rightarrow> Inl e
               | Inr index \<Rightarrow> Inr (take index val, Some (drop index val))))
         = Inr (takeWhile (\<lambda>x. x \<notin> set S) val, Some (dropWhile (\<lambda>x. x \<notin> set S) val))"
proof -
  let ?ixs = "map (\<lambda>c. length (takeWhile (\<lambda>x. x \<noteq> c) val)) P"
  have setP: "set P = set S \<inter> set val" using assms(1) by auto
  then have th: "those (map (py_index val) (map (\<lambda>c. [c]) P)) = Some ?ixs"
    by (intro those_index_single) simp
  have "?ixs \<noteq> []" using assms(2) by simp
  then have "py_min ?ixs = Inr (Min (set ?ixs))" by (rule py_min_Min)
  also have "Min (set ?ixs) = length (takeWhile (\<lambda>x. x \<notin> set S) val)"
    using assms(2) setP by (rule first_of_chars)
  finally have mn: "py_min ?ixs = Inr (length (takeWhile (\<lambda>x. x \<notin> set S) val))" .
  show ?thesis
    by (simp only: th mn sum.case option.case takeWhile_eq_take [symmetric] dropWhile_eq_drop [symmetric])
qed

lemma split_cut_general:
  assumes noat: "CHR ''@'' \<notin> set val"
  shows "split_name_and_version val =
     (if set val \<inter> set ''=<>'' = {} then Inr (val, None)
      else Inr (takeWhile (\<lambda>c. c \<notin> set ''=<>'') val,
                Some (dropWhile (\<lambda>c. c \<notin> set ''=<>'') val)))"
proof -
  define P where "P = filter (\<lambda>c. c \<in> set val) ''=<>''"
  have chars: "filter (\<lambda>c. py_in c val) [''='', ''<'', ''>''] = map (\<lambda>c. [c]) P"
    using chars_filter [of val "''=<>''"] by (simp only: P_def list.map)
  have setP: "set P = set ''=<>'' \<inter> set val" unfolding P_def by (simp only: set_filter) blast
  have noat': "\<not> py_in ''@'' val" using noat by (simp add: py_in_single)
  have unf: "split_name_and_version val =
      (if P = [] then Inr (val, None)
       else (case those (map (py_index val) (map (\<lambda>c. [c]) P)) of
            None \<Rightarrow> Inl ValueError
          | Some is \<Rightarrow>
              (case py_min is of
                 Inl e \<Rightarrow> Inl e
               | Inr index \<Rightarrow> Inr (take index val, Some (drop index val)))))"
    by (simp only: split_name_and_version_def chars Let_def noat' if_False map_is_Nil_conv)
  show ?thesis
  proof (cases "P = []")
    case True
    then have emp: "set val \<inter> set ''=<>'' = {}" using setP by (metis Int_commute set_empty)
    show ?thesis by (simp only: unf True emp if_True simp_thms)
  next
    case False
    then have ne: "set val \<inter> set ''=<>'' \<noteq> {}" using setP by (metis Int_commute set_empty)
    show ?thesis
      using cut_at_first [OF P_def False] by (simp only: unf False ne if_False)
  qed
qed

text \<open>
  Claim C9. For every value without \<^verbatim>\<open>@\<close>: when the value has at least one of \<^verbatim>\<open>=\<close>,
  \<^verbatim>\<open><\<close>, \<^verbatim>\<open>>\<close>, \<open>split_name_and_version\<close> returns a name and a version whose concatenation
  is the value, the name is the prefix before the first occurrence of any of the three
  characters and has none of them (so the version starts with one of them); when the
  value has none of the three, it returns the value and \<^verbatim>\<open>None\<close>.
\<close>

theorem split_name_and_version_cut:
  assumes "CHR ''@'' \<notin> set val"
  shows "(set val \<inter> set ''=<>'' \<noteq> {} \<longrightarrow>
           (\<exists>nm ver. split_name_and_version val = Inr (nm, Some ver) \<and> nm @ ver = val
               \<and> nm = takeWhile (\<lambda>c. c \<notin> set ''=<>'') val \<and> set nm \<inter> set ''=<>'' = {}
               \<and> ver \<noteq> [] \<and> hd ver \<in> set ''=<>''))
       \<and> (set val \<inter> set ''=<>'' = {} \<longrightarrow> split_name_and_version val = Inr (val, None))"
proof (intro conjI impI)
  assume ne: "set val \<inter> set ''=<>'' \<noteq> {}"
  let ?P = "\<lambda>c. c \<notin> set ''=<>''"
  have eq: "split_name_and_version val = Inr (takeWhile ?P val, Some (dropWhile ?P val))"
    using split_cut_general [OF assms] ne by (simp only: if_False)
  have a: "takeWhile ?P val @ dropWhile ?P val = val" by (rule takeWhile_dropWhile_id)
  have b: "set (takeWhile ?P val) \<inter> set ''=<>'' = {}"
    using set_takeWhileD [of _ ?P val] by blast
  from ne have c: "dropWhile ?P val \<noteq> []"
    by (simp only: dropWhile_eq_Nil_conv) blast
  from c have d: "hd (dropWhile ?P val) \<in> set ''=<>''"
    using hd_dropWhile [of ?P val] by blast
  from eq a b c d
  show "\<exists>nm ver. split_name_and_version val = Inr (nm, Some ver) \<and> nm @ ver = val
               \<and> nm = takeWhile (\<lambda>c. c \<notin> set ''=<>'') val \<and> set nm \<inter> set ''=<>'' = {}
               \<and> ver \<noteq> [] \<and> hd ver \<in> set ''=<>''"
    by blast
next
  assume "set val \<inter> set ''=<>'' = {}"
  then show "split_name_and_version val = Inr (val, None)"
    using split_cut_general [OF assms] by (simp only: if_True simp_thms)
qed

text \<open>
  The theorem at \<^verbatim>\<open>foo>=1,<2\<close>, which is cut before \<^verbatim>\<open>>\<close>, and at \<^verbatim>\<open>foo\<close>.
\<close>

theorem split_name_and_version_cut_witness:
  "split_name_and_version ''foo>=1,<2'' = Inr (''foo'', Some ''>=1,<2'')
   \<and> split_name_and_version ''foo'' = Inr (''foo'', None)"
proof -
  have a: "CHR ''@'' \<notin> set ''foo>=1,<2''" and b: "CHR ''@'' \<notin> set ''foo''" by simp_all
  have c: "set ''foo>=1,<2'' \<inter> set ''=<>'' \<noteq> {}" and d: "set ''foo'' \<inter> set ''=<>'' = {}"
    by simp_all
  have e: "takeWhile (\<lambda>c. c \<notin> set ''=<>'') ''foo>=1,<2'' = ''foo''" by simp
  from split_name_and_version_cut [OF a] c obtain nm ver
    where r: "split_name_and_version ''foo>=1,<2'' = Inr (nm, Some ver)"
      and j: "nm @ ver = ''foo>=1,<2''"
      and n: "nm = takeWhile (\<lambda>c. c \<notin> set ''=<>'') ''foo>=1,<2''"
    by blast
  from n e have nm: "nm = ''foo''" by (simp only:)
  with j have "ver = ''>=1,<2''" by simp
  with r nm have "split_name_and_version ''foo>=1,<2'' = Inr (''foo'', Some ''>=1,<2'')"
    by (simp only:)
  moreover from split_name_and_version_cut [OF b] d
  have "split_name_and_version ''foo'' = Inr (''foo'', None)" by blast
  ultimately show ?thesis by simp
qed

section \<open>Commands for the package manager\<close>

text \<open>
  Claim C5. For a plugin with a non-empty \<open>pip_command\<close> (the base command), every verb,
  Python location and extra arguments: with \<^verbatim>\<open>uv\<close> first in the base command and a
  location given, the result is the base command, the verb, \<^verbatim>\<open>--python\<close>, the location and
  the extra arguments; with another base command and a location given, it is the base
  command, \<^verbatim>\<open>--python\<close>, the location, the verb and the extra arguments; without a location
  it is the base command, the verb and the extra arguments in both cases. A location is
  given when it is a non-empty string: the source tests \<^verbatim>\<open>if python_location\<close>, so the empty
  string counts as no location, which the last conjunct states.
\<close>

theorem prepare_package_manager_args_order:
  assumes "pip_command p = c0 # cs"
      and "extra = (case extra_args of None \<Rightarrow> [] | Some xs \<Rightarrow> xs)"
  shows "(c0 = ''uv'' \<longrightarrow>
            prepare_package_manager_args p verb (Some (l # ls)) extra_args
              = Inr ((c0 # cs) @ [verb] @ [''--python'', l # ls] @ extra))
       \<and> (c0 \<noteq> ''uv'' \<longrightarrow>
            prepare_package_manager_args p verb (Some (l # ls)) extra_args
              = Inr ((c0 # cs) @ [''--python'', l # ls] @ [verb] @ extra))
       \<and> prepare_package_manager_args p verb None extra_args = Inr ((c0 # cs) @ [verb] @ extra)
       \<and> prepare_package_manager_args p verb (Some []) extra_args = Inr ((c0 # cs) @ [verb] @ extra)"
  using assms
  by (simp add: prepare_package_manager_args_def Let_def split: option.splits list.splits)

text \<open>
  The theorem at a \<^verbatim>\<open>uv\<close> plugin and at a \<^verbatim>\<open>pip\<close> plugin, with and without a location.
\<close>

theorem prepare_package_manager_args_order_witness:
  "prepare_package_manager_args vyper_uv ''install'' (Some ''/venv/bin/python'') (Some [''--user''])
     = Inr [''uv'', ''pip'', ''install'', ''--python'', ''/venv/bin/python'', ''--user'']
   \<and> prepare_package_manager_args vyper_pip ''install'' (Some ''/venv/bin/python'') (Some [''--user''])
     = Inr [''python3'', ''-m'', ''pip'', ''--python'', ''/venv/bin/python'', ''install'', ''--user'']
   \<and> prepare_package_manager_args vyper_uv ''install'' None (Some [''--user''])
     = Inr [''uv'', ''pip'', ''install'', ''--user'']
   \<and> prepare_package_manager_args vyper_pip ''install'' None None
     = Inr [''python3'', ''-m'', ''pip'', ''install'']"
  using prepare_package_manager_args_order
          [of vyper_uv "''uv''" "[''pip'']" "[''--user'']" "Some [''--user'']" "''install''"
              "CHR ''/''" "''venv/bin/python''"]
        prepare_package_manager_args_order
          [of vyper_pip "''python3''" "[''-m'', ''pip'']" "[''--user'']" "Some [''--user'']" "''install''"
              "CHR ''/''" "''venv/bin/python''"]
        prepare_package_manager_args_order
          [of vyper_pip "''python3''" "[''-m'', ''pip'']" "[]" None "''install''"
              "CHR ''/''" "''venv/bin/python''"]
  by (simp add: vyper_uv_def vyper_pip_def)

text \<open>
  Claim C6. For a plugin with a non-empty \<open>pip_command\<close> and every Python location,
  \<open>get_uninstall_args\<close> returns the \<^verbatim>\<open>uninstall\<close> arguments of
  \<open>prepare_package_manager_args\<close>, then \<^verbatim>\<open>-y\<close> exactly when the first element of the pip
  command is not \<^verbatim>\<open>uv\<close>, and it ends with the package name followed by \<^verbatim>\<open>--quiet\<close>.
\<close>

theorem get_uninstall_args_shape:
  assumes "pip_command p = c0 # cs"
  shows "\<exists>base. prepare_package_manager_args p ''uninstall'' python_location None = Inr base
           \<and> get_uninstall_args p python_location
               = Inr (base @ (if c0 \<noteq> ''uv'' then [''-y''] else []) @ [package_name p, ''--quiet''])"
  using assms
  by (simp add: get_uninstall_args_def prepare_package_manager_args_def Let_def split: option.splits list.splits)

text \<open>
  The theorem at a \<^verbatim>\<open>pip\<close> plugin, where \<^verbatim>\<open>-y\<close> is added, and at a \<^verbatim>\<open>uv\<close> plugin, where it
  is not.
\<close>

theorem get_uninstall_args_shape_witness:
  "get_uninstall_args vyper_pip (Some ''/venv/bin/python'')
     = Inr [''python3'', ''-m'', ''pip'', ''--python'', ''/venv/bin/python'', ''uninstall'', ''-y'',
            ''ape-vyper'', ''--quiet'']
   \<and> get_uninstall_args vyper_uv None = Inr [''uv'', ''pip'', ''uninstall'', ''ape-vyper'', ''--quiet'']"
  using get_uninstall_args_shape [of vyper_pip "''python3''" "[''-m'', ''pip'']" "Some ''/venv/bin/python''"]
        get_uninstall_args_shape [of vyper_uv "''uv''" "[''pip'']" None]
  by (auto simp add: vyper_uv_def vyper_pip_def prepare_package_manager_args_def package_name_def)

subsection \<open>The builders and the store\<close>














section \<open>Preparing an installation\<close>

lemma accounts_in_core: "in_core accounts_pip"
  by code_simp

lemma vyper_not_in_core: "\<not> in_core vyper_uv"
  by code_simp

text \<open>
  Claim C3. \<open>prepare_install\<close> returns \<^verbatim>\<open>None\<close> whenever the plugin is a core plugin, and
  whenever a version is specified (it is not \<^verbatim>\<open>None\<close>) together with \<^verbatim>\<open>upgrade=True\<close>; every
  dictionary it returns holds a list of pip arguments under the key \<^verbatim>\<open>args\<close>.
\<close>

theorem prepare_install_none_and_args:
  "(in_core p \<longrightarrow> prepare_install e p upgrade skip_confirmation python_location = Inr None)
   \<and> (version p \<noteq> None \<and> upgrade \<longrightarrow>
        prepare_install e p upgrade skip_confirmation python_location = Inr None)
   \<and> (\<forall>d. prepare_install e p upgrade skip_confirmation python_location = Inr (Some d) \<longrightarrow>
        (\<exists>pip_arguments. map_of d ''args'' = Some (ArgList pip_arguments)))"
  by (auto simp: prepare_install_def Let_def split: sum.splits if_splits)

text \<open>
  The theorem at the core plugin \<^verbatim>\<open>accounts\<close>, at an upgrade with a version, and at an
  installation that returns a dictionary.
\<close>

theorem prepare_install_none_and_args_witness:
  "prepare_install example_env accounts_pip False True None = Inr None
   \<and> prepare_install example_env (vyper_uv\<lparr>version := Some ''0.8.2''\<rparr>) True True None = Inr None
   \<and> (\<exists>pip_arguments.
         map_of [(''args'', ArgList [''uv'', ''pip'', ''install'', ''ape-vyper>=0.8,<0.9'', ''--quiet'']),
                 (''result_handler'', ModifyPluginResultHandler vyper_uv)] ''args''
           = Some (ArgList pip_arguments))"
proof -
  have r: "prepare_install example_env vyper_uv False True None
        = Inr (Some [(''args'', ArgList [''uv'', ''pip'', ''install'', ''ape-vyper>=0.8,<0.9'', ''--quiet'']),
                     (''result_handler'', ModifyPluginResultHandler vyper_uv)])"
    by code_simp
  show ?thesis
    using prepare_install_none_and_args [of accounts_pip example_env False True None]
          prepare_install_none_and_args [of "vyper_uv\<lparr>version := Some ''0.8.2''\<rparr>" example_env True True None]
          prepare_install_none_and_args [of vyper_uv example_env False True None]
          accounts_in_core r
    by simp
qed

text \<open>
  Claim C4. With \<^verbatim>\<open>upgrade=True\<close>, on a plugin that is not a core plugin and has no version,
  \<open>prepare_install\<close> returns a dictionary whose \<^verbatim>\<open>args\<close> are the \<^verbatim>\<open>install\<close> arguments of
  \<open>prepare_package_manager_args\<close> followed by \<^verbatim>\<open>--upgrade\<close>, the package name joined to
  Ape's version range, and \<^verbatim>\<open>--quiet\<close>. The version range is \<^verbatim>\<open>>=0.m,<0.(m+1)\<close> for Ape
  \<^verbatim>\<open>0.m\<close> and \<^verbatim>\<open>>=M,<(M+1)\<close> for a major version \<^verbatim>\<open>M\<close> other than 0.
\<close>

theorem prepare_install_upgrade_args:
  assumes "\<not> in_core p" and "version p = None"
      and "prepare_package_manager_args p ''install'' python_location None = Inr base"
  shows "(\<exists>d. prepare_install e p True skip_confirmation python_location = Inr (Some d)
            \<and> map_of d ''args'' = Some (ArgList
                 (base @ [''--upgrade'', package_name p @ version_range (ape_version e), ''--quiet''])))
       \<and> version_range (ape_version e) =
           (if major (ape_version e) = 0
            then ''>=0.'' @ py_str (minor (ape_version e)) @ '',<0.'' @ py_str (minor (ape_version e) + 1)
            else ''>='' @ py_str (major (ape_version e)) @ '',<'' @ py_str (major (ape_version e) + 1))"
  using assms by (simp add: prepare_install_def version_range_def)

text \<open>
  The theorem at a \<^verbatim>\<open>uv\<close> plugin under Ape 0.8, and the version ranges of Ape 0.8 and 1.0.
\<close>

theorem prepare_install_upgrade_args_witness:
  "prepare_install example_env vyper_uv True False (Some ''/venv/bin/python'')
     = Inr (Some [(''args'', ArgList [''uv'', ''pip'', ''install'', ''--python'', ''/venv/bin/python'',
                                     ''--upgrade'', ''ape-vyper>=0.8,<0.9'', ''--quiet'']),
                  (''version_before'', OptStr None),
                  (''result_handler'', ModifyPluginResultHandler vyper_uv)])
   \<and> version_range (ape_version example_env) = ''>=0.8,<0.9''
   \<and> version_range (ape_version example_env_one) = ''>=1,<2''"
proof -
  have base: "prepare_package_manager_args vyper_uv ''install'' (Some ''/venv/bin/python'') None
       = Inr [''uv'', ''pip'', ''install'', ''--python'', ''/venv/bin/python'']"
    by code_simp
  have v: "version vyper_uv = None" by (simp add: vyper_uv_def)
  have r: "prepare_install example_env vyper_uv True False (Some ''/venv/bin/python'')
     = Inr (Some [(''args'', ArgList [''uv'', ''pip'', ''install'', ''--python'', ''/venv/bin/python'',
                                     ''--upgrade'', ''ape-vyper>=0.8,<0.9'', ''--quiet'']),
                  (''version_before'', OptStr None),
                  (''result_handler'', ModifyPluginResultHandler vyper_uv)])"
    by code_simp
  have vr: "version_range (ape_version example_env) = ''>=0.8,<0.9''" by code_simp
  have vr1: "version_range (ape_version example_env_one) = ''>=1,<2''" by code_simp
  from prepare_install_upgrade_args [OF vyper_not_in_core v base, of example_env False] r vr vr1
  show ?thesis by simp
qed

section \<open>Downgrades of Ape\<close>

text \<open>
  When the library accepts every version text, the loop of \<open>would_get_downgraded\<close>
  returns whether some specifier passes the test; the loop raises nothing but
  \<^verbatim>\<open>InvalidVersion\<close>, and \<open>would_get_downgraded\<close> nothing but that and \<^verbatim>\<open>InvalidSpecifier\<close>.
\<close>

lemma downgrade_loop_parsed:
  assumes "\<forall>sp \<in> set specs. parse_Version e (version_text sp) \<noteq> None"
  shows "downgrade_loop e specs =
     Inr (major (ape_version e) = 0 \<and>
          (\<exists>sp \<in> set specs. operator sp \<in> {''=='', ''<'', ''<=''} \<and>
             (\<exists>v. parse_Version e (version_text sp) = Some v \<and> minor v < minor (ape_version e))))"
  using assms
proof (induction specs)
  case Nil
  then show ?case by simp
next
  case (Cons sp specs)
  then obtain v where v: "parse_Version e (version_text sp) = Some v" by auto
  from Cons have IH: "downgrade_loop e specs =
     Inr (major (ape_version e) = 0 \<and>
          (\<exists>sp \<in> set specs. operator sp \<in> {''=='', ''<'', ''<=''} \<and>
             (\<exists>v. parse_Version e (version_text sp) = Some v \<and> minor v < minor (ape_version e))))"
    by simp
  show ?case
    by (auto simp: v IH is_pre_one_def)
qed

lemma downgrade_loop_errors: "downgrade_loop e specs = Inl err \<Longrightarrow> err = InvalidVersion"
  by (induction specs) (auto split: option.splits if_splits)

lemma would_get_downgraded_errors:
  "would_get_downgraded e s = Inl err \<Longrightarrow> err = InvalidSpecifier \<or> err = InvalidVersion"
  by (auto simp: would_get_downgraded_def split: option.splits dest: downgrade_loop_errors)

text \<open>
  Claim C8, amended. For a specifier string that \<^verbatim>\<open>SpecifierSet\<close> accepts and whose
  specifiers all have a version text that \<^verbatim>\<open>Version\<close> accepts, \<open>would_get_downgraded\<close>
  returns \<^verbatim>\<open>True\<close> iff Ape's major version is 0 and some specifier of the set has the
  operator \<^verbatim>\<open>==\<close>, \<^verbatim>\<open><\<close> or \<^verbatim>\<open><=\<close> and a version whose minor component is less than Ape's
  minor version; in particular it returns \<^verbatim>\<open>False\<close> for every such string when Ape's
  major version is at least 1.
\<close>

theorem would_get_downgraded_parsed:
  assumes "parse_SpecifierSet e s = Some specs"
      and "\<forall>sp \<in> set specs. parse_Version e (version_text sp) \<noteq> None"
  shows "would_get_downgraded e s =
           Inr (major (ape_version e) = 0 \<and>
                (\<exists>sp \<in> set specs. operator sp \<in> {''=='', ''<'', ''<=''} \<and>
                   (\<exists>v. parse_Version e (version_text sp) = Some v
                        \<and> minor v < minor (ape_version e))))
       \<and> (1 \<le> major (ape_version e) \<longrightarrow> would_get_downgraded e s = Inr False)"
  using assms downgrade_loop_parsed [of specs e]
  by (simp add: would_get_downgraded_def)

text \<open>
  The theorem at \<^verbatim>\<open>==0.7.0\<close> and at \<^verbatim>\<open>>=0.7,<0.9\<close> under Ape 0.8, and at \<^verbatim>\<open>==0.7.0\<close> under
  Ape 1.0.
\<close>

theorem would_get_downgraded_parsed_witness:
  "would_get_downgraded example_env ''==0.7.0'' = Inr True
   \<and> would_get_downgraded example_env ''>=0.7,<0.9'' = Inr False
   \<and> would_get_downgraded example_env_one ''==0.7.0'' = Inr False"
proof -
  have p1: "parse_SpecifierSet example_env ''==0.7.0'' = Some [Specifier ''=='' ''0.7.0'']"
    and p2: "parse_SpecifierSet example_env ''>=0.7,<0.9'' = Some [Specifier ''>='' ''0.7'', Specifier ''<'' ''0.9'']"
    and p3: "parse_SpecifierSet example_env_one ''==0.7.0'' = Some [Specifier ''=='' ''0.7.0'']"
    by (simp_all add: example_env_def example_env_one_def example_SpecifierSet_def)
  have v: "parse_Version example_env ''0.7.0'' = Some \<lparr>major = 0, minor = 7\<rparr>"
          "parse_Version example_env ''0.7'' = Some \<lparr>major = 0, minor = 7\<rparr>"
          "parse_Version example_env ''0.9'' = Some \<lparr>major = 0, minor = 9\<rparr>"
          "parse_Version example_env_one ''0.7.0'' = Some \<lparr>major = 0, minor = 7\<rparr>"
    by (simp_all add: example_env_def example_env_one_def example_Version_def)
  have a: "ape_version example_env = \<lparr>major = 0, minor = 8\<rparr>"
          "ape_version example_env_one = \<lparr>major = 1, minor = 0\<rparr>"
    by (simp_all add: example_env_def example_env_one_def)
  from would_get_downgraded_parsed [OF p1] v a
  have 1: "would_get_downgraded example_env ''==0.7.0'' = Inr True" by simp
  from would_get_downgraded_parsed [OF p2] v a
  have 2: "would_get_downgraded example_env ''>=0.7,<0.9'' = Inr False" by simp
  from would_get_downgraded_parsed [OF p3] v a
  have 3: "would_get_downgraded example_env_one ''==0.7.0'' = Inr False" by simp
  from 1 2 3 show ?thesis by (simp only: simp_thms)
qed

text \<open>
  Claim C8 as stated fails: under Ape 1.0 the specifier string \<^verbatim>\<open>==1.*\<close> is a valid
  specifier set, \<^verbatim>\<open>Version("1.*")\<close> raises, and \<open>would_get_downgraded\<close> raises
  \<^verbatim>\<open>InvalidVersion\<close> where the claim has it return \<^verbatim>\<open>False\<close>.
\<close>

theorem would_get_downgraded_raises_counterexample:
  "major (ape_version example_env_one) = 1
   \<and> parse_SpecifierSet example_env_one ''==1.*'' = Some [Specifier ''=='' ''1.*'']
   \<and> would_get_downgraded example_env_one ''==1.*'' = Inl InvalidVersion
   \<and> would_get_downgraded example_env_one ''==1.*'' \<noteq> Inr False"
  by (simp add: would_get_downgraded_def example_env_one_def example_env_def
        example_SpecifierSet_def example_Version_def)

lemma startswith_git_nonempty: "py_startswith v ''git+'' \<Longrightarrow> v \<noteq> []"
  by (auto simp: py_startswith_def)

text \<open>
  Claim C2. For every plugin: \<open>install_str\<close> returns the version itself when the version
  starts with \<^verbatim>\<open>git+\<close>. When another version is given (a non-empty string), it is
  normalized to \<^verbatim>\<open>==version\<close> if it has none of \<^verbatim>\<open>=\<close>, \<^verbatim>\<open><\<close>, \<^verbatim>\<open>>\<close>, and \<open>install_str\<close>
  raises \<^verbatim>\<open>PluginVersionError\<close> exactly when \<open>would_get_downgraded\<close> returns \<^verbatim>\<open>True\<close> on the
  normalized version; when that returns \<^verbatim>\<open>False\<close> the result is the package name joined
  to the normalized version. \<open>install_str\<close> raises \<^verbatim>\<open>PluginVersionError\<close> in no other
  case. With no version it returns the package name joined to Ape's version range.
\<close>

theorem install_str_cases:
  "(\<forall>v. version p = Some v \<and> py_startswith v ''git+'' \<longrightarrow> install_str e p = Inr v)
   \<and> (\<forall>v nv. version p = Some v \<and> v \<noteq> [] \<and> \<not> py_startswith v ''git+''
          \<and> nv = (if CHR ''='' \<notin> set v \<and> CHR ''<'' \<notin> set v \<and> CHR ''>'' \<notin> set v
                  then ''=='' @ v else v) \<longrightarrow>
        (install_str e p = Inl PluginVersionError \<longleftrightarrow> would_get_downgraded e nv = Inr True)
        \<and> (would_get_downgraded e nv = Inr False \<longrightarrow> install_str e p = Inr (package_name p @ nv)))
   \<and> (install_str e p = Inl PluginVersionError \<longrightarrow>
        (\<exists>v. version p = Some v \<and> v \<noteq> [] \<and> \<not> py_startswith v ''git+''))
   \<and> (version p = None \<longrightarrow> install_str e p = Inr (package_name p @ version_range (ape_version e)))"
proof (intro conjI allI impI)
  fix v assume "version p = Some v \<and> py_startswith v ''git+''"
  then show "install_str e p = Inr v"
    by (simp add: install_str_def startswith_git_nonempty)
next
  fix v nv
  assume a: "version p = Some v \<and> v \<noteq> [] \<and> \<not> py_startswith v ''git+''
          \<and> nv = (if CHR ''='' \<notin> set v \<and> CHR ''<'' \<notin> set v \<and> CHR ''>'' \<notin> set v
                  then ''=='' @ v else v)"
  then obtain c cs where v: "v = c # cs" by (cases v) auto
  from a have nv: "nv = (if CHR ''='' \<notin> set v \<and> CHR ''<'' \<notin> set v \<and> CHR ''>'' \<notin> set v
                  then ''=='' @ v else v)" by simp
  have unf: "install_str e p =
      (case would_get_downgraded e nv of
         Inl err \<Rightarrow> Inl err
       | Inr True \<Rightarrow> Inl PluginVersionError
       | Inr False \<Rightarrow> Inr (package_name p @ nv))"
    using a unfolding nv v by (simp add: install_str_def Let_def py_in_single del: py_in.simps)
  show "install_str e p = Inl PluginVersionError \<longleftrightarrow> would_get_downgraded e nv = Inr True"
    unfolding unf by (auto split: sum.splits bool.splits dest: would_get_downgraded_errors)
  show "install_str e p = Inr (package_name p @ nv)" if "would_get_downgraded e nv = Inr False"
    unfolding unf using that by simp
next
  assume "install_str e p = Inl PluginVersionError"
  then show "\<exists>v. version p = Some v \<and> v \<noteq> [] \<and> \<not> py_startswith v ''git+''"
    by (auto simp: install_str_def Let_def split: option.splits list.splits if_splits)
next
  assume "version p = None"
  then show "install_str e p = Inr (package_name p @ version_range (ape_version e))"
    by (simp add: install_str_def Let_def)
qed

text \<open>
  The theorem under Ape 0.8 at a \<^verbatim>\<open>git+\<close> version, at \<^verbatim>\<open>0.7.0\<close> (a downgrade), at
  \<^verbatim>\<open>0.8.2\<close> (normalized), at \<^verbatim>\<open>>=0.7,<0.9\<close> (kept as it is) and at no version.
\<close>

theorem install_str_cases_witness:
  "install_str example_env (vyper_uv\<lparr>version := Some ''git+https://github.com/ApeWorX/ape-vyper''\<rparr>)
      = Inr ''git+https://github.com/ApeWorX/ape-vyper''
   \<and> install_str example_env (vyper_uv\<lparr>version := Some ''0.7.0''\<rparr>) = Inl PluginVersionError
   \<and> install_str example_env (vyper_uv\<lparr>version := Some ''0.8.2''\<rparr>) = Inr ''ape-vyper==0.8.2''
   \<and> install_str example_env (vyper_uv\<lparr>version := Some ''>=0.7,<0.9''\<rparr>) = Inr ''ape-vyper>=0.7,<0.9''
   \<and> install_str example_env vyper_uv = Inr ''ape-vyper>=0.8,<0.9''"
proof -
  let ?git = "''git+https://github.com/ApeWorX/ape-vyper''"
  have g: "version (vyper_uv\<lparr>version := Some ?git\<rparr>) = Some ?git \<and> py_startswith ?git ''git+''"
    by (simp add: py_startswith_def)
  have d7: "would_get_downgraded example_env ''==0.7.0'' = Inr True" by code_simp
  have d8: "would_get_downgraded example_env ''==0.8.2'' = Inr False" by code_simp
  have dr: "would_get_downgraded example_env ''>=0.7,<0.9'' = Inr False" by code_simp
  have vr: "version_range (ape_version example_env) = ''>=0.8,<0.9''" by code_simp
  have pk: "package_name (vyper_uv\<lparr>version := v\<rparr>) = ''ape-vyper''" for v
    by (simp add: package_name_def vyper_uv_def)
  have pk0: "package_name vyper_uv = ''ape-vyper''" by (simp add: package_name_def vyper_uv_def)
  have ng: "\<not> py_startswith ''0.7.0'' ''git+''" "\<not> py_startswith ''0.8.2'' ''git+''"
           "\<not> py_startswith ''>=0.7,<0.9'' ''git+''"
    by (simp_all add: py_startswith_def)
  note t = install_str_cases
  from t [of "vyper_uv\<lparr>version := Some ?git\<rparr>" example_env] g
  have 1: "install_str example_env (vyper_uv\<lparr>version := Some ?git\<rparr>) = Inr ?git" by blast
  from t [of "vyper_uv\<lparr>version := Some ''0.7.0''\<rparr>" example_env]
  have "install_str example_env (vyper_uv\<lparr>version := Some ''0.7.0''\<rparr>) = Inl PluginVersionError
        \<longleftrightarrow> would_get_downgraded example_env ''==0.7.0'' = Inr True"
    using ng(1) by (elim conjE allE [of _ "''0.7.0''"] allE [of _ "''==0.7.0''"]) simp
  with d7 have 2: "install_str example_env (vyper_uv\<lparr>version := Some ''0.7.0''\<rparr>) = Inl PluginVersionError"
    by simp
  from t [of "vyper_uv\<lparr>version := Some ''0.8.2''\<rparr>" example_env]
  have "would_get_downgraded example_env ''==0.8.2'' = Inr False \<longrightarrow>
        install_str example_env (vyper_uv\<lparr>version := Some ''0.8.2''\<rparr>)
          = Inr (package_name (vyper_uv\<lparr>version := Some ''0.8.2''\<rparr>) @ ''==0.8.2'')"
    using ng(2) by (elim conjE allE [of _ "''0.8.2''"] allE [of _ "''==0.8.2''"]) simp
  with d8 pk have 3: "install_str example_env (vyper_uv\<lparr>version := Some ''0.8.2''\<rparr>) = Inr ''ape-vyper==0.8.2''"
    by simp
  from t [of "vyper_uv\<lparr>version := Some ''>=0.7,<0.9''\<rparr>" example_env]
  have "would_get_downgraded example_env ''>=0.7,<0.9'' = Inr False \<longrightarrow>
        install_str example_env (vyper_uv\<lparr>version := Some ''>=0.7,<0.9''\<rparr>)
          = Inr (package_name (vyper_uv\<lparr>version := Some ''>=0.7,<0.9''\<rparr>) @ ''>=0.7,<0.9'')"
    using ng(3) by (elim conjE allE [of _ "''>=0.7,<0.9''"] allE [of _ "''>=0.7,<0.9''"]) simp
  with dr pk have 4: "install_str example_env (vyper_uv\<lparr>version := Some ''>=0.7,<0.9''\<rparr>) = Inr ''ape-vyper>=0.7,<0.9''"
    by simp
  from t [of vyper_uv example_env] vr pk0
  have 5: "install_str example_env vyper_uv = Inr ''ape-vyper>=0.8,<0.9''"
    by (simp add: vyper_uv_def)
  from 1 2 3 4 5 show ?thesis by (simp only: simp_thms)
qed

section \<open>The groups of from_package_names\<close>















subsection \<open>The keys of the groups\<close>














lemma odd_groups_computed: "from_package_names example_env_odd odd_packages True None = Inr odd_groups"
  by code_simp

lemma odd_key_twice: "''accounts<=1'' \<in> group_keys (core odd_groups) \<inter> group_keys (third_party odd_groups)"
  by (simp add: odd_groups_def group_keys_def)





text \<open>
  The assumption on the environment is used. The entries \<^verbatim>\<open>accounts<=1\<close> and
  \<^verbatim>\<open>accounts<=1==2\<close> have the same key; the first is the core plugin \<^verbatim>\<open>accounts\<close>, and the
  second keeps the name \<^verbatim>\<open>accounts<=1\<close>. The second is in a group only when a distribution
  or a registry entry has \<^verbatim>\<open>accounts<=1\<close> in its name, which is not a package name; the
  lemma shows the two groups in an environment that has such a distribution.
\<close>

lemma groups_overlap_odd_env:
  "from_package_names example_env_odd odd_packages True None = Inr odd_groups
   \<and> ''accounts<=1'' \<in> group_keys (core odd_groups)
   \<and> ''accounts<=1'' \<in> group_keys (third_party odd_groups)"
  using odd_groups_computed odd_key_twice by simp

end
